theory Spec2Isabelle
  imports Main "HOL-Library.Word" "HOL-Library.Signed_Division"
begin

section \<open>Machine integers of \<^verbatim>\<open>timep.c\<close>\<close>

text \<open>
  On the LP64 targets the loadable is built for, \<^verbatim>\<open>time_t\<close>, \<^verbatim>\<open>long\<close>,
  \<^verbatim>\<open>long long\<close> and \<^verbatim>\<open>int64_t\<close> are all 64-bit two's complement integers. They
  are modelled as \<open>64 word\<close>, read through \<open>sint\<close>. Multiplication and addition wrap
  around, which is what the compiled code does where C leaves the overflow undefined.
\<close>

type_synonym int64 = "64 word"

text \<open>C's \<^verbatim>\<open>/\<close> on two signed 64-bit operands: the quotient is truncated toward zero.\<close>

definition sdiv64 :: "int64 \<Rightarrow> int64 \<Rightarrow> int64" where
  "sdiv64 a b = word_of_int (sint a sdiv sint b)"

text \<open>\<^verbatim>\<open>struct timespec\<close>: the reading of the clock.\<close>

record timespec =
  tv_sec :: int64
  tv_nsec :: int64

text \<open>Line 85: \<^verbatim>\<open>int64_t micros = ts.tv_sec * 1000000LL + ts.tv_nsec / 1000;\<close>\<close>

definition micros_of :: "timespec \<Rightarrow> int64" where
  "micros_of ts = tv_sec ts * 1000000 + sdiv64 (tv_nsec ts) 1000"

text \<open>
  The conversion as the specification words it, on unbounded integers:
  \<open>micros = seconds * 1_000_000 + nanoseconds / 1_000\<close>, the division truncating
  toward zero (\<open>sdiv\<close> on \<open>int\<close> is truncating division).
\<close>

definition micros_spec :: "int \<Rightarrow> int \<Rightarrow> int" where
  "micros_spec seconds nanoseconds = seconds * 1000000 + nanoseconds sdiv 1000"

text \<open>The values that a 64-bit signed integer can hold.\<close>

definition fits_int64 :: "int \<Rightarrow> bool" where
  "fits_int64 v \<longleftrightarrow> - (2 ^ 63) \<le> v \<and> v < 2 ^ 63"


section \<open>Formatting and parsing decimal integers\<close>

text \<open>
  The C library's \<^verbatim>\<open>%lld\<close> conversion: an optional minus sign followed by the decimal
  digits of the magnitude, without leading zeros.
\<close>

definition digit_char :: "nat \<Rightarrow> char" where
  "digit_char d = ''0123456789'' ! d"

fun dec_digits :: "nat \<Rightarrow> string" where
  "dec_digits n =
     (if n < 10 then [digit_char n]
      else dec_digits (n div 10) @ [digit_char (n mod 10)])"

declare dec_digits.simps [simp del]

definition fmt_lld :: "int \<Rightarrow> string" where
  "fmt_lld v = (if v < 0 then CHR ''-'' # dec_digits (nat (- v)) else dec_digits (nat v))"

text \<open>
  \<^verbatim>\<open>snprintf(buf, size, "%lld", v)\<close>: at most \<open>n - 1\<close> characters (\<open>n\<close> the size given) of the formatted
  value are stored, followed by the terminator; the model returns the stored string.
\<close>

definition snprintf_lld :: "nat \<Rightarrow> int \<Rightarrow> string" where
  "snprintf_lld n v = take (n - 1) (fmt_lld v)"

text \<open>
  Reading a decimal string back. \<open>digit_val\<close> is the value of an ASCII digit,
  \<open>parse_digits\<close> accumulates digits from the left, \<open>parse_lld\<close> accepts an optional
  minus sign followed by at least one digit, and \<open>parse_int64\<close> also demands that the
  value fits in a 64-bit signed integer.
\<close>

definition digit_val :: "char \<Rightarrow> nat option" where
  "digit_val c =
     (let k = (of_char c :: nat) in if 48 \<le> k \<and> k \<le> 57 then Some (k - 48) else None)"

fun parse_digits :: "string \<Rightarrow> nat \<Rightarrow> nat option" where
  "parse_digits [] acc = Some acc"
| "parse_digits (c # cs) acc =
     (case digit_val c of None \<Rightarrow> None | Some d \<Rightarrow> parse_digits cs (10 * acc + d))"

definition parse_nat :: "string \<Rightarrow> nat option" where
  "parse_nat s = (if s = [] then None else parse_digits s 0)"

definition parse_lld :: "string \<Rightarrow> int option" where
  "parse_lld s =
     (case s of
        [] \<Rightarrow> None
      | c # r \<Rightarrow>
          if c = CHR ''-'' then map_option (\<lambda>n. - int n) (parse_nat r)
          else map_option int (parse_nat s))"

definition parse_int64 :: "string \<Rightarrow> int option" where
  "parse_int64 s =
     (case parse_lld s of
        None \<Rightarrow> None
      | Some v \<Rightarrow> if fits_int64 v then Some v else None)"

text \<open>A non-negative decimal integer string: one or more ASCII digits, nothing else.\<close>

definition is_nonneg_dec :: "string \<Rightarrow> bool" where
  "is_nonneg_dec s \<longleftrightarrow> s \<noteq> [] \<and> list_all (\<lambda>c. digit_val c \<noteq> None) s"


section \<open>The host shell\<close>

text \<open>
  What the builtin sees of the host and cannot change: the name the command was invoked
  under (which \<^verbatim>\<open>make_builtin_argv\<close> puts in \<^verbatim>\<open>argv[0]\<close>), whether
  \<^verbatim>\<open>CLOCK_PROCESS_CPUTIME_ID\<close> was defined when the file was compiled, and what the
  system call answers: an error, with the text \<^verbatim>\<open>strerror(errno)\<close> gives for it, or a
  reading.
\<close>

datatype clock_outcome = Clock_Failed string | Clock_Ok timespec

record host =
  this_command_name :: string
  have_clock :: bool
  clock :: clock_outcome

text \<open>
  What the builtin can change: standard output, the diagnostic channel (the messages
  handed to \<^verbatim>\<open>builtin_error\<close>, in order), the shell's variables, how often the clock
  was read, and how often \<^verbatim>\<open>xfree\<close> was called on the argument vector of the
  invocation.
\<close>

record shell =
  stdout :: string
  stderr :: "string list"
  vars :: "string \<rightharpoonup> string"
  clock_calls :: nat
  argv_frees :: nat

text \<open>
  Modelled from the spec: the status sentinels of the host shell (its header
  \<^verbatim>\<open>shell.h\<close> is not among the sources); success is zero and failure is non-zero.
\<close>

definition EXECUTION_SUCCESS :: int where
  "EXECUTION_SUCCESS = 0"

definition EXECUTION_FAILURE :: int where
  "EXECUTION_FAILURE = 1"

text \<open>
  Modelled from the spec: the collaborator interfaces of the host, \<open>report_error(message)\<close>
  and \<open>bind(name, value)\<close>, which stores a value in the host's variable namespace.
  The diagnostic channel records the formatted message handed to \<^verbatim>\<open>builtin_error\<close>;
  the prefix the shell itself puts before it is not part of the model.
\<close>

definition builtin_error :: "string \<Rightarrow> shell \<Rightarrow> shell" where
  "builtin_error msg st = st\<lparr>stderr := stderr st @ [msg]\<rparr>"

definition bind_variable :: "string \<Rightarrow> string \<Rightarrow> shell \<Rightarrow> shell" where
  "bind_variable name val st = st\<lparr>vars := (vars st)(name \<mapsto> val)\<rparr>"

text \<open>
  \<^verbatim>\<open>xfree(argv)\<close>: one more release of the argument vector. The vector is the only
  block the builtin ever frees, so counting the calls tells how often it was freed.
\<close>

definition xfree :: "shell \<Rightarrow> shell" where
  "xfree st = st\<lparr>argv_frees := Suc (argv_frees st)\<rparr>"

text \<open>\<^verbatim>\<open>printf("%lld\n", v)\<close>: the formatted value and a newline go to standard output.\<close>

definition printf_lld :: "int \<Rightarrow> shell \<Rightarrow> shell" where
  "printf_lld v st = st\<lparr>stdout := stdout st @ fmt_lld v @ [CHR 0x0A]\<rparr>"

text \<open>
  \<^verbatim>\<open>clock_gettime(CLOCK_PROCESS_CPUTIME_ID, &ts)\<close>: the clock is read once, the
  answer is the host's.
\<close>

definition clock_gettime :: "host \<Rightarrow> shell \<Rightarrow> clock_outcome \<times> shell" where
  "clock_gettime h st = (clock h, st\<lparr>clock_calls := Suc (clock_calls st)\<rparr>)"

text \<open>
  Modelled from the spec: the argument vector the host derives from the invocation,
  \<^verbatim>\<open>make_builtin_argv(list, &argc)\<close>: the command name followed by the words of the
  invocation, the positional arguments. The pair \<^verbatim>\<open>(argc, argv)\<close> of the C code is
  the list, \<^verbatim>\<open>argc\<close> being its length.
\<close>

definition make_builtin_argv :: "host \<Rightarrow> string list \<Rightarrow> string list" where
  "make_builtin_argv h list = this_command_name h # list"


section \<open>The builtin\<close>

text \<open>
  \<^verbatim>\<open>clock_gettime_main(argc, argv)\<close>, lines 66 to 101. \<^verbatim>\<open>argv[1]\<close> is read only
  when \<^verbatim>\<open>argc == 2\<close>; a C string is empty when its first byte is the terminator.
  The conditional compilation on \<^verbatim>\<open>CLOCK_PROCESS_CPUTIME_ID\<close> is the test of
  \<open>have_clock\<close>. The result is the status returned and the shell afterwards.
\<close>

definition clock_gettime_main :: "host \<Rightarrow> string list \<Rightarrow> shell \<Rightarrow> int \<times> shell" where
  "clock_gettime_main h argv st =
     (if length argv > 2 then
        (EXECUTION_FAILURE, builtin_error ''clock_gettime: too many arguments'' st)
      else
        let varname = (if length argv = 2 \<and> argv ! 1 \<noteq> [] then Some (argv ! 1) else None)
        in
          if have_clock h then
            (case clock_gettime h st of
               (Clock_Failed e, st1) \<Rightarrow>
                 (EXECUTION_FAILURE,
                  xfree (builtin_error (''clock_gettime failed: '' @ e) st1))
             | (Clock_Ok ts, st1) \<Rightarrow>
                 let micros = micros_of ts in
                   (case varname of
                      Some name \<Rightarrow>
                        (EXECUTION_SUCCESS,
                         bind_variable name (snprintf_lld 32 (sint micros)) st1)
                    | None \<Rightarrow>
                        (EXECUTION_SUCCESS, printf_lld (sint micros) st1)))
          else
            (EXECUTION_FAILURE,
             xfree (builtin_error ''clock_gettime is not supported on this system.'' st)))"

text \<open>\<^verbatim>\<open>timep_builtin(list)\<close>, lines 116 to 132: the dispatcher the shell calls.\<close>

definition timep_builtin :: "host \<Rightarrow> string list \<Rightarrow> shell \<Rightarrow> int \<times> shell" where
  "timep_builtin h list st =
     (let argv = make_builtin_argv h list;
          sub = argv ! 0;
          (ret, st1) =
            (if sub = ''clock_gettime'' then clock_gettime_main h argv st
             else
               (EXECUTION_FAILURE,
                builtin_error (''timep: unknown command '' @ [CHR 0x27] @ sub @ [CHR 0x27]) st))
      in (ret, xfree st1))"

text \<open>A shell that has written nothing yet, for the concrete runs below.\<close>

abbreviation shell0 :: shell where
  "shell0 \<equiv> \<lparr>stdout = [], stderr = [], vars = Map.empty, clock_calls = 0, argv_frees = 0\<rparr>"


section \<open>Facts about the conversion and the decimal strings\<close>

lemma micros_of_word:
  "micros_of ts = word_of_int (micros_spec (sint (tv_sec ts)) (sint (tv_nsec ts)))"
  by (simp add: micros_of_def micros_spec_def sdiv64_def)

lemma sint_micros_of:
  "sint (micros_of ts) = signed_take_bit 63 (micros_spec (sint (tv_sec ts)) (sint (tv_nsec ts)))"
  by (simp add: micros_of_word sint_sbintrunc')

lemma sint_micros_of_exact:
  "fits_int64 (micros_spec (sint (tv_sec ts)) (sint (tv_nsec ts))) \<Longrightarrow>
   sint (micros_of ts) = micros_spec (sint (tv_sec ts)) (sint (tv_nsec ts))"
  by (simp add: sint_micros_of fits_int64_def signed_take_bit_int_eq_self)

lemma micros_spec_truncates:
  "micros_spec s n = s * 1000000 + (if 0 \<le> n then n div 1000 else - ((- n) div 1000))"
  by (simp add: micros_spec_def signed_divide_int_def sgn_if)

lemma fits_int64_sint: "fits_int64 (sint (w :: int64))"
  using sint_ge [of w] sint_lt [of w] by (simp add: fits_int64_def)

lemma digit_val_digit_char: "d < 10 \<Longrightarrow> digit_val (digit_char d) = Some d"
proof -
  assume "d < 10"
  then have "d = 0 \<or> d = 1 \<or> d = 2 \<or> d = 3 \<or> d = 4 \<or> d = 5 \<or> d = 6 \<or> d = 7 \<or> d = 8 \<or> d = 9"
    by arith
  then show ?thesis
    by (elim disjE) (simp_all add: digit_val_def digit_char_def)
qed

lemma digit_val_minus: "digit_val CHR ''-'' = None"
  by (simp add: digit_val_def)

lemma dec_digits_not_Nil: "dec_digits n \<noteq> []"
  by (subst dec_digits.simps) simp

lemma dec_digits_all_digits: "list_all (\<lambda>c. digit_val c \<noteq> None) (dec_digits n)"
proof (induction n rule: dec_digits.induct)
  case (1 n)
  show ?case
  proof (cases "n < 10")
    case True
    then show ?thesis
      by (subst dec_digits.simps) (simp add: digit_val_digit_char)
  next
    case False
    then have "list_all (\<lambda>c. digit_val c \<noteq> None) (dec_digits (n div 10))"
      using "1.IH" by simp
    moreover have "digit_val (digit_char (n mod 10)) \<noteq> None"
      by (simp add: digit_val_digit_char)
    ultimately show ?thesis
      using False by (subst dec_digits.simps) simp
  qed
qed

lemma length_dec_digits: "n < 10 ^ k \<Longrightarrow> 0 < k \<Longrightarrow> length (dec_digits n) \<le> k"
proof (induction n arbitrary: k rule: dec_digits.induct)
  case (1 n)
  show ?case
  proof (cases "n < 10")
    case True
    with "1.prems" show ?thesis
      by (subst dec_digits.simps) simp
  next
    case False
    with "1.prems" obtain j where k: "k = Suc j"
      by (cases k) auto
    from False "1.prems" k have "0 < j"
      by (cases j) auto
    moreover from "1.prems" k have "n div 10 < 10 ^ j"
      by (simp add: less_mult_imp_div_less mult.commute)
    ultimately have "length (dec_digits (n div 10)) \<le> j"
      using "1.IH" False by simp
    with False k show ?thesis
      by (subst dec_digits.simps) simp
  qed
qed

lemma parse_digits_append:
  "parse_digits (xs @ ys) acc =
     (case parse_digits xs acc of None \<Rightarrow> None | Some a \<Rightarrow> parse_digits ys a)"
  by (induction xs arbitrary: acc) (auto split: option.splits)

lemma parse_digits_dec_digits: "parse_digits (dec_digits n) 0 = Some n"
proof (induction n rule: dec_digits.induct)
  case (1 n)
  show ?case
  proof (cases "n < 10")
    case True
    then show ?thesis
      by (subst dec_digits.simps) (simp add: digit_val_digit_char)
  next
    case False
    then have "parse_digits (dec_digits (n div 10)) 0 = Some (n div 10)"
      using "1.IH" by simp
    with False show ?thesis
      by (subst dec_digits.simps) (simp add: parse_digits_append digit_val_digit_char)
  qed
qed

lemma parse_nat_dec_digits: "parse_nat (dec_digits n) = Some n"
  by (simp add: parse_nat_def dec_digits_not_Nil parse_digits_dec_digits)

lemma dec_digits_no_minus: "dec_digits n = c # r \<Longrightarrow> c \<noteq> CHR ''-''"
  using dec_digits_all_digits [of n] by (auto simp: digit_val_minus)

lemma parse_lld_fmt_lld: "parse_lld (fmt_lld v) = Some v"
proof (cases "v < 0")
  case True
  then show ?thesis
    by (simp add: parse_lld_def fmt_lld_def parse_nat_dec_digits)
next
  case False
  obtain c r where cr: "dec_digits (nat v) = c # r"
    using dec_digits_not_Nil [of "nat v"] by (cases "dec_digits (nat v)") auto
  then have "c \<noteq> CHR ''-''"
    by (rule dec_digits_no_minus)
  moreover have "parse_nat (c # r) = Some (nat v)"
    using parse_nat_dec_digits [of "nat v"] cr by simp
  ultimately show ?thesis
    using False cr by (simp add: parse_lld_def fmt_lld_def)
qed

lemma parse_int64_fmt_lld: "parse_int64 (fmt_lld (sint (w :: int64))) = Some (sint w)"
  by (simp add: parse_int64_def parse_lld_fmt_lld fits_int64_sint)

lemma is_nonneg_dec_fmt_lld: "0 \<le> v \<Longrightarrow> is_nonneg_dec (fmt_lld v)"
  using dec_digits_all_digits [of "nat v"]
  by (simp add: is_nonneg_dec_def fmt_lld_def dec_digits_not_Nil)

lemma length_fmt_lld_int64: "length (fmt_lld (sint (w :: int64))) \<le> 20"
proof -
  have lo: "- (2 ^ 63) \<le> sint w" and hi: "sint w < 2 ^ 63"
    using sint_ge [of w] sint_lt [of w] by simp_all
  show ?thesis
  proof (cases "sint w < 0")
    case True
    with lo have "nat (- sint w) < 10 ^ 19"
      by simp
    then have "length (dec_digits (nat (- sint w))) \<le> 19"
      by (rule length_dec_digits) simp
    with True show ?thesis
      by (simp add: fmt_lld_def)
  next
    case False
    with hi have "nat (sint w) < 10 ^ 19"
      by simp
    then have "length (dec_digits (nat (sint w))) \<le> 19"
      by (rule length_dec_digits) simp
    with False show ?thesis
      by (simp add: fmt_lld_def)
  qed
qed

lemma snprintf_lld_exact: "snprintf_lld 32 (sint (w :: int64)) = fmt_lld (sint w)"
  using length_fmt_lld_int64 [of w] by (simp add: snprintf_lld_def)

lemma micros_spec_nonneg: "0 \<le> s \<Longrightarrow> 0 \<le> n \<Longrightarrow> 0 \<le> micros_spec s n"
  by (simp add: micros_spec_truncates)

lemma micros_spec_mono:
  assumes "0 \<le> n1" "n1 < 1000000000" "0 \<le> n2" "n2 < 1000000000"
    and "s1 < s2 \<or> (s1 = s2 \<and> n1 \<le> n2)"
  shows "micros_spec s1 n1 \<le> micros_spec s2 n2"
proof -
  have q1: "0 \<le> n1 div 1000" "n1 div 1000 \<le> 999999"
    using assms(1,2) by simp_all
  have q2: "0 \<le> n2 div 1000"
    using assms(3) by simp
  from assms(5) show ?thesis
  proof
    assume "s1 < s2"
    then have "s1 * 1000000 + 1000000 \<le> s2 * 1000000"
      by simp
    with q1 q2 show ?thesis
      using assms(1,3) by (simp add: micros_spec_truncates)
  next
    assume "s1 = s2 \<and> n1 \<le> n2"
    then have "s1 = s2" and "n1 div 1000 \<le> n2 div 1000"
      by (simp_all add: zdiv_mono1)
    then show ?thesis
      using assms(1,3) by (simp add: micros_spec_truncates)
  qed
qed


section \<open>The paths through the builtin\<close>

lemma clock_gettime_main_too_many:
  "2 < length argv \<Longrightarrow>
   clock_gettime_main h argv st =
     (EXECUTION_FAILURE, builtin_error ''clock_gettime: too many arguments'' st)"
  by (simp add: clock_gettime_main_def)

lemma clock_gettime_main_unsupported:
  "length argv \<le> 2 \<Longrightarrow> \<not> have_clock h \<Longrightarrow>
   clock_gettime_main h argv st =
     (EXECUTION_FAILURE,
      xfree (builtin_error ''clock_gettime is not supported on this system.'' st))"
  by (simp add: clock_gettime_main_def Let_def)

lemma clock_gettime_main_failed:
  "length argv \<le> 2 \<Longrightarrow> have_clock h \<Longrightarrow> clock h = Clock_Failed e \<Longrightarrow>
   clock_gettime_main h argv st =
     (EXECUTION_FAILURE,
      xfree (builtin_error (''clock_gettime failed: '' @ e)
        (st\<lparr>clock_calls := Suc (clock_calls st)\<rparr>)))"
  by (simp add: clock_gettime_main_def Let_def clock_gettime_def)

lemma clock_gettime_main_print:
  "length argv \<le> 2 \<Longrightarrow> \<not> (length argv = 2 \<and> argv ! 1 \<noteq> []) \<Longrightarrow>
   have_clock h \<Longrightarrow> clock h = Clock_Ok ts \<Longrightarrow>
   clock_gettime_main h argv st =
     (EXECUTION_SUCCESS,
      printf_lld (sint (micros_of ts)) (st\<lparr>clock_calls := Suc (clock_calls st)\<rparr>))"
  by (auto simp add: clock_gettime_main_def Let_def clock_gettime_def)

lemma clock_gettime_main_assign:
  "length argv = 2 \<Longrightarrow> argv ! 1 \<noteq> [] \<Longrightarrow> have_clock h \<Longrightarrow> clock h = Clock_Ok ts \<Longrightarrow>
   clock_gettime_main h argv st =
     (EXECUTION_SUCCESS,
      bind_variable (argv ! 1) (fmt_lld (sint (micros_of ts)))
        (st\<lparr>clock_calls := Suc (clock_calls st)\<rparr>))"
  by (simp add: clock_gettime_main_def Let_def clock_gettime_def snprintf_lld_exact)

lemma timep_builtin_dispatch:
  "this_command_name h = ''clock_gettime'' \<Longrightarrow>
   timep_builtin h list st =
     (fst (clock_gettime_main h (''clock_gettime'' # list) st),
      xfree (snd (clock_gettime_main h (''clock_gettime'' # list) st)))"
  by (simp add: timep_builtin_def make_builtin_argv_def Let_def split: prod.splits)

lemma timep_builtin_unknown:
  "this_command_name h \<noteq> ''clock_gettime'' \<Longrightarrow>
   timep_builtin h list st =
     (EXECUTION_FAILURE,
      xfree (builtin_error
        (''timep: unknown command '' @ [CHR 0x27] @ this_command_name h @ [CHR 0x27]) st))"
  by (simp add: timep_builtin_def make_builtin_argv_def Let_def)

lemma timep_builtin_print:
  "this_command_name h = ''clock_gettime'' \<Longrightarrow> have_clock h \<Longrightarrow> clock h = Clock_Ok ts \<Longrightarrow>
   list = [] \<or> list = [[]] \<Longrightarrow>
   timep_builtin h list st =
     (EXECUTION_SUCCESS,
      st\<lparr>stdout := stdout st @ fmt_lld (sint (micros_of ts)) @ [CHR 0x0A],
         clock_calls := Suc (clock_calls st),
         argv_frees := Suc (argv_frees st)\<rparr>)"
  by (auto simp add: timep_builtin_dispatch clock_gettime_main_print printf_lld_def xfree_def)

lemma timep_builtin_assign:
  "this_command_name h = ''clock_gettime'' \<Longrightarrow> have_clock h \<Longrightarrow> clock h = Clock_Ok ts \<Longrightarrow>
   name \<noteq> [] \<Longrightarrow>
   timep_builtin h [name] st =
     (EXECUTION_SUCCESS,
      st\<lparr>vars := (vars st)(name \<mapsto> fmt_lld (sint (micros_of ts))),
         clock_calls := Suc (clock_calls st),
         argv_frees := Suc (argv_frees st)\<rparr>)"
  by (simp add: timep_builtin_dispatch clock_gettime_main_assign bind_variable_def xfree_def)

lemma timep_builtin_too_many:
  "this_command_name h = ''clock_gettime'' \<Longrightarrow> 1 < length list \<Longrightarrow>
   timep_builtin h list st =
     (EXECUTION_FAILURE,
      st\<lparr>stderr := stderr st @ [''clock_gettime: too many arguments''],
         argv_frees := Suc (argv_frees st)\<rparr>)"
  by (simp add: timep_builtin_dispatch clock_gettime_main_too_many builtin_error_def xfree_def)

text \<open>
  The status \<^verbatim>\<open>clock_gettime_main\<close> returns, and the diagnostic it writes, on each of
  its paths.
\<close>

lemma clock_gettime_main_status:
  "(fst (clock_gettime_main h argv st) = EXECUTION_SUCCESS \<longleftrightarrow>
      length argv \<le> 2 \<and> have_clock h \<and> (\<exists>ts. clock h = Clock_Ok ts))
   \<and> (fst (clock_gettime_main h argv st) = EXECUTION_FAILURE \<longleftrightarrow>
      2 < length argv
      \<or> (length argv \<le> 2 \<and> \<not> have_clock h)
      \<or> (length argv \<le> 2 \<and> have_clock h \<and> (\<exists>e. clock h = Clock_Failed e)))
   \<and> (2 < length argv \<longrightarrow>
        stderr (snd (clock_gettime_main h argv st)) =
          stderr st @ [''clock_gettime: too many arguments'']
        \<and> stdout (snd (clock_gettime_main h argv st)) = stdout st)
   \<and> (length argv \<le> 2 \<and> \<not> have_clock h \<longrightarrow>
        stderr (snd (clock_gettime_main h argv st)) =
          stderr st @ [''clock_gettime is not supported on this system.'']
        \<and> stdout (snd (clock_gettime_main h argv st)) = stdout st)
   \<and> (length argv \<le> 2 \<and> have_clock h \<and> clock h = Clock_Failed e \<longrightarrow>
        stderr (snd (clock_gettime_main h argv st)) =
          stderr st @ [''clock_gettime failed: '' @ e]
        \<and> stdout (snd (clock_gettime_main h argv st)) = stdout st)
   \<and> (fst (clock_gettime_main h argv st) = EXECUTION_SUCCESS \<longrightarrow>
        stderr (snd (clock_gettime_main h argv st)) = stderr st)"
proof -
  have ne: "EXECUTION_SUCCESS \<noteq> EXECUTION_FAILURE"
    by (simp add: EXECUTION_SUCCESS_def EXECUTION_FAILURE_def)
  consider (many) "2 < length argv"
    | (unsupported) "length argv \<le> 2" "\<not> have_clock h"
    | (failed) e' where "length argv \<le> 2" "have_clock h" "clock h = Clock_Failed e'"
    | (print) ts where "length argv \<le> 2" "have_clock h" "clock h = Clock_Ok ts"
        "\<not> (length argv = 2 \<and> argv ! 1 \<noteq> [])"
    | (assign) ts where "length argv = 2" "argv ! 1 \<noteq> []" "have_clock h" "clock h = Clock_Ok ts"
    by (cases "clock h") force+
  then show ?thesis
  proof cases
    case many
    then show ?thesis
      using ne by (simp add: clock_gettime_main_too_many builtin_error_def)
  next
    case unsupported
    then show ?thesis
      using ne by (simp add: clock_gettime_main_unsupported builtin_error_def xfree_def)
  next
    case failed
    then show ?thesis
      using ne by (simp add: clock_gettime_main_failed builtin_error_def xfree_def)
  next
    case print
    then show ?thesis
      using ne by (simp add: clock_gettime_main_print printf_lld_def)
  next
    case assign
    then show ?thesis
      using ne by (simp add: clock_gettime_main_assign bind_variable_def)
  qed
qed

text \<open>
  How often an invocation frees its argument vector: once where only
  \<^verbatim>\<open>timep_builtin\<close> frees it, twice where \<^verbatim>\<open>clock_gettime_main\<close> has freed it
  already.
\<close>

lemma argv_freed_once:
  assumes "this_command_name h \<noteq> ''clock_gettime'' \<or> 1 < length list
           \<or> (have_clock h \<and> (\<exists>ts. clock h = Clock_Ok ts))"
  shows "argv_frees (snd (timep_builtin h list st)) = Suc (argv_frees st)"
proof (cases "this_command_name h = ''clock_gettime''")
  case False
  then show ?thesis
    by (simp add: timep_builtin_unknown xfree_def builtin_error_def)
next
  case name: True
  show ?thesis
  proof (cases "1 < length list")
    case True
    with name show ?thesis
      by (simp add: timep_builtin_too_many)
  next
    case False
    with assms name obtain ts where ok: "have_clock h" "clock h = Clock_Ok ts"
      by auto
    from False have len: "length (''clock_gettime'' # list) \<le> 2"
      by simp
    show ?thesis
    proof (cases "length (''clock_gettime'' # list) = 2 \<and> (''clock_gettime'' # list) ! 1 \<noteq> []")
      case True
      with name ok show ?thesis
        by (simp add: timep_builtin_dispatch clock_gettime_main_assign
            bind_variable_def xfree_def del: length_Cons nth_Cons_Suc)
    next
      case False
      with name ok len show ?thesis
        by (simp add: timep_builtin_dispatch clock_gettime_main_print
            printf_lld_def xfree_def del: length_Cons nth_Cons_Suc)
    qed
  qed
qed

lemma argv_freed_twice:
  assumes "this_command_name h = ''clock_gettime''" and "length list \<le> 1"
    and "\<not> have_clock h \<or> (\<exists>e. clock h = Clock_Failed e)"
  shows "argv_frees (snd (timep_builtin h list st)) = Suc (Suc (argv_frees st))"
proof (cases "have_clock h")
  case False
  with assms(1,2) show ?thesis
    by (simp add: timep_builtin_dispatch clock_gettime_main_unsupported
        xfree_def builtin_error_def)
next
  case True
  with assms(3) obtain e where "clock h = Clock_Failed e"
    by auto
  with True assms(1,2) show ?thesis
    by (simp add: timep_builtin_dispatch clock_gettime_main_failed
        xfree_def builtin_error_def)
qed


section \<open>The claims\<close>

subsection \<open>C1: the conversion to microseconds\<close>

text \<open>
  C1 as it is written fails: it says that the emitted value equals
  \<open>seconds * 1_000_000 + nanoseconds / 1_000\<close> for every reading, and a 64-bit signed
  integer cannot hold that sum for every pair of 64-bit fields. At 9223372036855 seconds
  and 0 nanoseconds the sum is 9223372036855000000, and the value computed and printed
  is -9223372036854551616.
\<close>

theorem micros_conversion_counterexample:
  "micros_spec (sint (tv_sec \<lparr>tv_sec = 9223372036855, tv_nsec = 0\<rparr>))
               (sint (tv_nsec \<lparr>tv_sec = 9223372036855, tv_nsec = 0\<rparr>))
     = 9223372036855000000
   \<and> sint (micros_of \<lparr>tv_sec = 9223372036855, tv_nsec = 0\<rparr>) = - 9223372036854551616
   \<and> sint (micros_of \<lparr>tv_sec = 9223372036855, tv_nsec = 0\<rparr>)
       \<noteq> micros_spec (sint (tv_sec \<lparr>tv_sec = 9223372036855, tv_nsec = 0\<rparr>))
                     (sint (tv_nsec \<lparr>tv_sec = 9223372036855, tv_nsec = 0\<rparr>))
   \<and> stdout (snd (timep_builtin
        \<lparr>this_command_name = ''clock_gettime'', have_clock = True,
           clock = Clock_Ok \<lparr>tv_sec = 9223372036855, tv_nsec = 0\<rparr>\<rparr> [] shell0))
       = ''-9223372036854551616'' @ [CHR 0x0A]"
proof -
  have m: "micros_spec 9223372036855 0 = 9223372036855000000"
    by (simp add: micros_spec_truncates)
  have e: "sint (micros_of \<lparr>tv_sec = 9223372036855, tv_nsec = 0\<rparr>) = - 9223372036854551616"
    by (simp add: micros_of_def sdiv64_def)
  have f: "fmt_lld (- 9223372036854551616) = ''-9223372036854551616''"
    by (simp add: fmt_lld_def dec_digits.simps digit_char_def)
  show ?thesis
    by (simp add: m e f timep_builtin_print)
qed

text \<open>
  C1, amended. For every clock reading, made of a seconds field and a nanoseconds field,
  whose sum \<open>seconds * 1_000_000 + nanoseconds / 1_000\<close>, the division truncating toward
  zero, lies in the signed 64-bit range, the value the operation emits is that sum, held
  as a 64-bit signed integer. For any reading the emitted value is the one 64-bit two's
  complement integer congruent to that sum modulo \<open>2 ^ 64\<close> (\<open>signed_take_bit 63\<close>).
  This is the value that is printed, followed by a newline, when no variable is named,
  and the value bound to the variable when one is.
\<close>

theorem micros_conversion:
  "sint (micros_of ts) =
     signed_take_bit 63 (micros_spec (sint (tv_sec ts)) (sint (tv_nsec ts)))
   \<and> (fits_int64 (micros_spec (sint (tv_sec ts)) (sint (tv_nsec ts))) \<longrightarrow>
        sint (micros_of ts) = micros_spec (sint (tv_sec ts)) (sint (tv_nsec ts)))
   \<and> (this_command_name h = ''clock_gettime'' \<and> have_clock h \<and> clock h = Clock_Ok ts \<longrightarrow>
        stdout (snd (timep_builtin h [] st)) =
          stdout st @ fmt_lld (sint (micros_of ts)) @ [CHR 0x0A]
        \<and> (name \<noteq> [] \<longrightarrow>
             vars (snd (timep_builtin h [name] st)) name =
               Some (fmt_lld (sint (micros_of ts)))))"
  by (simp add: sint_micros_of_exact timep_builtin_print timep_builtin_assign flip: sint_micros_of)

theorem micros_conversion_witness:
  "fits_int64 (micros_spec 3 1999)
   \<and> micros_spec 3 1999 = 3000001
   \<and> sint (micros_of \<lparr>tv_sec = 3, tv_nsec = 1999\<rparr>) = 3000001
   \<and> stdout (snd (timep_builtin
        \<lparr>this_command_name = ''clock_gettime'', have_clock = True,
           clock = Clock_Ok \<lparr>tv_sec = 3, tv_nsec = 1999\<rparr>\<rparr> [] shell0))
       = ''3000001'' @ [CHR 0x0A]
   \<and> vars (snd (timep_builtin
        \<lparr>this_command_name = ''clock_gettime'', have_clock = True,
           clock = Clock_Ok \<lparr>tv_sec = 3, tv_nsec = 1999\<rparr>\<rparr> [''T''] shell0)) ''T''
       = Some ''3000001''"
proof -
  have m: "micros_spec 3 1999 = 3000001"
    by (simp add: micros_spec_truncates)
  have f: "fmt_lld 3000001 = ''3000001''"
    by (simp add: fmt_lld_def dec_digits.simps digit_char_def)
  show ?thesis
    using micros_conversion [of "\<lparr>tv_sec = 3, tv_nsec = 1999\<rparr>"
        "\<lparr>this_command_name = ''clock_gettime'', have_clock = True,
           clock = Clock_Ok \<lparr>tv_sec = 3, tv_nsec = 1999\<rparr>\<rparr>" shell0 "''T''"]
    by (simp add: m f fits_int64_def)
qed

subsection \<open>C2: more than one positional argument\<close>

text \<open>
  C2. An invocation with more than one positional argument fails with the failure
  status; the clock is not read, nothing is written to standard output and no variable
  is bound. Under the command's own name the failure is the usage error: the only
  diagnostic is \<^verbatim>\<open>clock_gettime: too many arguments\<close>, written by
  \<^verbatim>\<open>clock_gettime_main\<close> before anything else is done.
\<close>

theorem too_many_arguments:
  assumes "1 < length list"
  shows "fst (timep_builtin h list st) = EXECUTION_FAILURE
    \<and> clock_calls (snd (timep_builtin h list st)) = clock_calls st
    \<and> stdout (snd (timep_builtin h list st)) = stdout st
    \<and> vars (snd (timep_builtin h list st)) = vars st
    \<and> (this_command_name h = ''clock_gettime'' \<longrightarrow>
         clock_gettime_main h (make_builtin_argv h list) st =
           (EXECUTION_FAILURE, builtin_error ''clock_gettime: too many arguments'' st)
         \<and> stderr (snd (timep_builtin h list st)) =
             stderr st @ [''clock_gettime: too many arguments''])"
proof (cases "this_command_name h = ''clock_gettime''")
  case True
  with assms show ?thesis
    by (simp add: timep_builtin_too_many clock_gettime_main_too_many make_builtin_argv_def)
next
  case False
  then show ?thesis
    by (simp add: timep_builtin_unknown xfree_def builtin_error_def)
qed

theorem too_many_arguments_witness:
  "1 < length [''a'', ''b'']
   \<and> fst (timep_builtin
        \<lparr>this_command_name = ''clock_gettime'', have_clock = True,
           clock = Clock_Ok \<lparr>tv_sec = 3, tv_nsec = 1999\<rparr>\<rparr> [''a'', ''b''] shell0)
       = EXECUTION_FAILURE
   \<and> clock_calls (snd (timep_builtin
        \<lparr>this_command_name = ''clock_gettime'', have_clock = True,
           clock = Clock_Ok \<lparr>tv_sec = 3, tv_nsec = 1999\<rparr>\<rparr> [''a'', ''b''] shell0)) = 0
   \<and> stdout (snd (timep_builtin
        \<lparr>this_command_name = ''clock_gettime'', have_clock = True,
           clock = Clock_Ok \<lparr>tv_sec = 3, tv_nsec = 1999\<rparr>\<rparr> [''a'', ''b''] shell0)) = []
   \<and> vars (snd (timep_builtin
        \<lparr>this_command_name = ''clock_gettime'', have_clock = True,
           clock = Clock_Ok \<lparr>tv_sec = 3, tv_nsec = 1999\<rparr>\<rparr> [''a'', ''b''] shell0)) = Map.empty
   \<and> stderr (snd (timep_builtin
        \<lparr>this_command_name = ''clock_gettime'', have_clock = True,
           clock = Clock_Ok \<lparr>tv_sec = 3, tv_nsec = 1999\<rparr>\<rparr> [''a'', ''b''] shell0))
       = [''clock_gettime: too many arguments'']"
  using too_many_arguments [of "[''a'', ''b'']"
      "\<lparr>this_command_name = ''clock_gettime'', have_clock = True,
         clock = Clock_Ok \<lparr>tv_sec = 3, tv_nsec = 1999\<rparr>\<rparr>" shell0]
  by simp

subsection \<open>C3: how often the argument vector is freed\<close>

text \<open>
  C3 says that the argument vector is freed exactly once on every path. It is freed once
  where the arguments are too many, where the command is unknown and where the value is
  emitted: there only \<^verbatim>\<open>timep_builtin\<close> calls \<^verbatim>\<open>xfree(argv)\<close>, at line 130.
  Where the system call fails and where the platform has no process clock,
  \<^verbatim>\<open>clock_gettime_main\<close> frees the vector before it returns (lines 80 and 98) and
  \<^verbatim>\<open>timep_builtin\<close> frees it again. The run below is the command without arguments
  on a failing system call: the diagnostic is written, the failure status is returned,
  and the vector has been freed twice.
\<close>

theorem argv_double_free:
  "timep_builtin
     \<lparr>this_command_name = ''clock_gettime'', have_clock = True,
        clock = Clock_Failed ''Invalid argument''\<rparr> [] shell0
   = (EXECUTION_FAILURE,
      \<lparr>stdout = [], stderr = [''clock_gettime failed: Invalid argument''], vars = Map.empty,
         clock_calls = 1, argv_frees = 2\<rparr>)"
  by (simp add: timep_builtin_def make_builtin_argv_def clock_gettime_main_def
      clock_gettime_def builtin_error_def xfree_def Let_def)

subsection \<open>C4: the exit status and the diagnostics\<close>

text \<open>
  C4 says that the invocation returns the failure status when the platform has no
  process clock and when the system call fails, after the diagnostic. Inside
  \<^verbatim>\<open>clock_gettime_main\<close> that is what happens (\<open>clock_gettime_main_status\<close>), but
  the invocation is the call of \<^verbatim>\<open>timep_builtin\<close>, and on these two paths
  \<^verbatim>\<open>clock_gettime_main\<close> has already freed the argument vector when it returns
  (lines 80 and 98). \<^verbatim>\<open>timep_builtin\<close> frees it a second time at line 130, before
  line 131 can hand the status to the shell. The run below is the command with the
  argument \<^verbatim>\<open>RESULT\<close> on a failing system call: when \<^verbatim>\<open>clock_gettime_main\<close>
  returns the failure status the vector has been freed once, and the dispatcher frees it
  again.
\<close>

theorem failure_status_behind_second_free:
  "clock_gettime_main
     \<lparr>this_command_name = ''clock_gettime'', have_clock = True,
        clock = Clock_Failed ''Operation not permitted''\<rparr> [''clock_gettime'', ''RESULT''] shell0
   = (EXECUTION_FAILURE,
      \<lparr>stdout = [], stderr = [''clock_gettime failed: Operation not permitted''],
         vars = Map.empty, clock_calls = 1, argv_frees = 1\<rparr>)
   \<and> argv_frees (snd (timep_builtin
        \<lparr>this_command_name = ''clock_gettime'', have_clock = True,
           clock = Clock_Failed ''Operation not permitted''\<rparr> [''RESULT''] shell0)) = 2"
  by (simp add: timep_builtin_def make_builtin_argv_def clock_gettime_main_def
      clock_gettime_def builtin_error_def xfree_def Let_def)

subsection \<open>C5: an empty argument\<close>

text \<open>
  C5. An invocation whose single positional argument is the empty string has exactly the
  result of an invocation without arguments, whatever the host answers. On a clock
  reading both print the decimal value followed by a newline, return the success status
  and bind no variable.
\<close>

theorem empty_argument_prints:
  "timep_builtin h [[]] st = timep_builtin h [] st
   \<and> (this_command_name h = ''clock_gettime'' \<and> have_clock h \<and> clock h = Clock_Ok ts \<longrightarrow>
        fst (timep_builtin h [[]] st) = EXECUTION_SUCCESS
        \<and> stdout (snd (timep_builtin h [[]] st)) =
            stdout st @ fmt_lld (sint (micros_of ts)) @ [CHR 0x0A]
        \<and> vars (snd (timep_builtin h [[]] st)) = vars st
        \<and> stderr (snd (timep_builtin h [[]] st)) = stderr st)"
proof -
  have "clock_gettime_main h [c, []] st = clock_gettime_main h [c] st" for c
    by (simp add: clock_gettime_main_def Let_def)
  then have "timep_builtin h [[]] st = timep_builtin h [] st"
    by (simp add: timep_builtin_def make_builtin_argv_def Let_def)
  then show ?thesis
    by (simp add: timep_builtin_print)
qed

theorem empty_argument_prints_witness:
  "timep_builtin
     \<lparr>this_command_name = ''clock_gettime'', have_clock = True,
        clock = Clock_Ok \<lparr>tv_sec = 3, tv_nsec = 1999\<rparr>\<rparr> [[]] shell0
   = timep_builtin
     \<lparr>this_command_name = ''clock_gettime'', have_clock = True,
        clock = Clock_Ok \<lparr>tv_sec = 3, tv_nsec = 1999\<rparr>\<rparr> [] shell0
   \<and> fst (timep_builtin
        \<lparr>this_command_name = ''clock_gettime'', have_clock = True,
           clock = Clock_Ok \<lparr>tv_sec = 3, tv_nsec = 1999\<rparr>\<rparr> [[]] shell0) = EXECUTION_SUCCESS
   \<and> stdout (snd (timep_builtin
        \<lparr>this_command_name = ''clock_gettime'', have_clock = True,
           clock = Clock_Ok \<lparr>tv_sec = 3, tv_nsec = 1999\<rparr>\<rparr> [[]] shell0))
       = ''3000001'' @ [CHR 0x0A]
   \<and> vars (snd (timep_builtin
        \<lparr>this_command_name = ''clock_gettime'', have_clock = True,
           clock = Clock_Ok \<lparr>tv_sec = 3, tv_nsec = 1999\<rparr>\<rparr> [[]] shell0)) = Map.empty"
proof -
  have e: "sint (micros_of \<lparr>tv_sec = 3, tv_nsec = 1999\<rparr>) = 3000001"
    by (simp add: micros_of_def sdiv64_def signed_divide_int_def)
  have f: "fmt_lld 3000001 = ''3000001''"
    by (simp add: fmt_lld_def dec_digits.simps digit_char_def)
  note t = empty_argument_prints [of
        "\<lparr>this_command_name = ''clock_gettime'', have_clock = True,
           clock = Clock_Ok \<lparr>tv_sec = 3, tv_nsec = 1999\<rparr>\<rparr>" shell0
        "\<lparr>tv_sec = 3, tv_nsec = 1999\<rparr>"]
  from t [THEN conjunct1] t [THEN conjunct2] show ?thesis
    by (simp add: e f)
qed

subsection \<open>C6: a named variable\<close>

text \<open>
  C6. An invocation with exactly one non-empty positional argument on which the clock
  read succeeds binds the decimal string of the computed microsecond value to the
  variable of that name, writes nothing to standard output and returns the success
  status.
\<close>

theorem named_variable_is_bound:
  assumes "this_command_name h = ''clock_gettime''" and "have_clock h"
    and "clock h = Clock_Ok ts" and "name \<noteq> []"
  shows "fst (timep_builtin h [name] st) = EXECUTION_SUCCESS
    \<and> vars (snd (timep_builtin h [name] st)) =
        (vars st)(name \<mapsto> fmt_lld (sint (micros_of ts)))
    \<and> stdout (snd (timep_builtin h [name] st)) = stdout st
    \<and> stderr (snd (timep_builtin h [name] st)) = stderr st
    \<and> clock_calls (snd (timep_builtin h [name] st)) = Suc (clock_calls st)"
  using assms by (simp add: timep_builtin_assign)

theorem named_variable_is_bound_witness:
  "fst (timep_builtin
        \<lparr>this_command_name = ''clock_gettime'', have_clock = True,
           clock = Clock_Ok \<lparr>tv_sec = 3, tv_nsec = 1999\<rparr>\<rparr> [''RESULT''] shell0)
     = EXECUTION_SUCCESS
   \<and> vars (snd (timep_builtin
        \<lparr>this_command_name = ''clock_gettime'', have_clock = True,
           clock = Clock_Ok \<lparr>tv_sec = 3, tv_nsec = 1999\<rparr>\<rparr> [''RESULT''] shell0))
     = [''RESULT'' \<mapsto> ''3000001'']
   \<and> stdout (snd (timep_builtin
        \<lparr>this_command_name = ''clock_gettime'', have_clock = True,
           clock = Clock_Ok \<lparr>tv_sec = 3, tv_nsec = 1999\<rparr>\<rparr> [''RESULT''] shell0)) = []"
proof -
  have e: "sint (micros_of \<lparr>tv_sec = 3, tv_nsec = 1999\<rparr>) = 3000001"
    by (simp add: micros_of_def sdiv64_def signed_divide_int_def)
  have f: "fmt_lld 3000001 = ''3000001''"
    by (simp add: fmt_lld_def dec_digits.simps digit_char_def)
  show ?thesis
    using named_variable_is_bound [of
        "\<lparr>this_command_name = ''clock_gettime'', have_clock = True,
           clock = Clock_Ok \<lparr>tv_sec = 3, tv_nsec = 1999\<rparr>\<rparr>"
        "\<lparr>tv_sec = 3, tv_nsec = 1999\<rparr>" "''RESULT''" shell0]
    by (simp add: e f)
qed

subsection \<open>C7: the emitted string is a non-negative decimal integer\<close>

text \<open>
  C7 as it is written fails: a seconds field that is not negative can be so large that
  the multiplication by 1000000 leaves the 64-bit range, and the value printed is then
  negative. At 9223372036855 seconds and 0 nanoseconds the builtin prints
  \<^verbatim>\<open>-9223372036854551616\<close>.
\<close>

theorem nonnegative_decimal_counterexample:
  "0 \<le> sint (tv_sec \<lparr>tv_sec = 9223372036855, tv_nsec = 0\<rparr>)
   \<and> 0 \<le> sint (tv_nsec \<lparr>tv_sec = 9223372036855, tv_nsec = 0\<rparr>)
   \<and> sint (tv_nsec \<lparr>tv_sec = 9223372036855, tv_nsec = 0\<rparr>) < 1000000000
   \<and> timep_builtin
        \<lparr>this_command_name = ''clock_gettime'', have_clock = True,
           clock = Clock_Ok \<lparr>tv_sec = 9223372036855, tv_nsec = 0\<rparr>\<rparr> [] shell0
      = (EXECUTION_SUCCESS,
         \<lparr>stdout = ''-9223372036854551616'' @ [CHR 0x0A], stderr = [], vars = Map.empty,
            clock_calls = 1, argv_frees = 1\<rparr>)
   \<and> \<not> is_nonneg_dec ''-9223372036854551616''"
proof -
  have e: "sint (micros_of \<lparr>tv_sec = 9223372036855, tv_nsec = 0\<rparr>) = - 9223372036854551616"
    by (simp add: micros_of_def sdiv64_def)
  have f: "fmt_lld (- 9223372036854551616) = ''-9223372036854551616''"
    by (simp add: fmt_lld_def dec_digits.simps digit_char_def)
  show ?thesis
    by (simp add: timep_builtin_print e f is_nonneg_dec_def digit_val_def)
qed

text \<open>
  C7, amended. For every valid invocation without or with one argument on a platform
  that has the clock, when the reading has a seconds field \<open>\<ge> 0\<close>, a nanoseconds field in
  \<open>[0, 1_000_000_000)\<close> and \<open>seconds * 1_000_000 + nanoseconds / 1_000 < 2 ^ 63\<close>,
  the printed or assigned string is a non-negative decimal integer string that parses
  back to the 64-bit signed integer that was computed, which is that sum.
\<close>

theorem nonnegative_decimal:
  assumes "0 \<le> sint (tv_sec ts)" and "0 \<le> sint (tv_nsec ts)"
    and "sint (tv_nsec ts) < 1000000000"
    and "micros_spec (sint (tv_sec ts)) (sint (tv_nsec ts)) < 2 ^ 63"
    and "this_command_name h = ''clock_gettime''" and "have_clock h"
    and "clock h = Clock_Ok ts"
  shows "is_nonneg_dec (fmt_lld (sint (micros_of ts)))
    \<and> parse_int64 (fmt_lld (sint (micros_of ts))) = Some (sint (micros_of ts))
    \<and> sint (micros_of ts) = micros_spec (sint (tv_sec ts)) (sint (tv_nsec ts))
    \<and> stdout (snd (timep_builtin h [] st)) =
        stdout st @ fmt_lld (sint (micros_of ts)) @ [CHR 0x0A]
    \<and> stdout (snd (timep_builtin h [[]] st)) =
        stdout st @ fmt_lld (sint (micros_of ts)) @ [CHR 0x0A]
    \<and> (name \<noteq> [] \<longrightarrow>
         vars (snd (timep_builtin h [name] st)) name = Some (fmt_lld (sint (micros_of ts))))"
proof -
  have nonneg: "0 \<le> micros_spec (sint (tv_sec ts)) (sint (tv_nsec ts))"
    using assms(1,2) by (rule micros_spec_nonneg)
  with assms(4) have "fits_int64 (micros_spec (sint (tv_sec ts)) (sint (tv_nsec ts)))"
    by (simp add: fits_int64_def)
  then have exact: "sint (micros_of ts) = micros_spec (sint (tv_sec ts)) (sint (tv_nsec ts))"
    by (rule sint_micros_of_exact)
  with nonneg have dec: "is_nonneg_dec (fmt_lld (sint (micros_of ts)))"
    by (simp add: is_nonneg_dec_fmt_lld)
  have parsed: "parse_int64 (fmt_lld (sint (micros_of ts))) = Some (sint (micros_of ts))"
    by (rule parse_int64_fmt_lld)
  from dec parsed exact [symmetric] assms(5-7) show ?thesis
    by (simp add: timep_builtin_print timep_builtin_assign)
qed

theorem nonnegative_decimal_witness:
  "0 \<le> sint (3 :: int64) \<and> 0 \<le> sint (1999 :: int64) \<and> sint (1999 :: int64) < 1000000000
   \<and> micros_spec (sint (3 :: int64)) (sint (1999 :: int64)) < 2 ^ 63
   \<and> is_nonneg_dec ''3000001''
   \<and> parse_int64 ''3000001'' = Some 3000001
   \<and> stdout (snd (timep_builtin
        \<lparr>this_command_name = ''clock_gettime'', have_clock = True,
           clock = Clock_Ok \<lparr>tv_sec = 3, tv_nsec = 1999\<rparr>\<rparr> [] shell0))
       = ''3000001'' @ [CHR 0x0A]
   \<and> vars (snd (timep_builtin
        \<lparr>this_command_name = ''clock_gettime'', have_clock = True,
           clock = Clock_Ok \<lparr>tv_sec = 3, tv_nsec = 1999\<rparr>\<rparr> [''T''] shell0)) ''T''
       = Some ''3000001''"
proof -
  have m: "micros_spec 3 1999 = 3000001"
    by (simp add: micros_spec_truncates)
  have e: "sint (micros_of \<lparr>tv_sec = 3, tv_nsec = 1999\<rparr>) = 3000001"
    by (simp add: micros_of_def sdiv64_def signed_divide_int_def)
  have f: "fmt_lld 3000001 = ''3000001''"
    by (simp add: fmt_lld_def dec_digits.simps digit_char_def)
  show ?thesis
    using nonnegative_decimal [of "\<lparr>tv_sec = 3, tv_nsec = 1999\<rparr>"
        "\<lparr>this_command_name = ''clock_gettime'', have_clock = True,
           clock = Clock_Ok \<lparr>tv_sec = 3, tv_nsec = 1999\<rparr>\<rparr>" shell0 "''T''"]
    by (simp add: m e f)
qed

subsection \<open>C8: the conversion is monotone\<close>

text \<open>
  C8 as it is written fails for the same reason: of two readings in lexicographic order,
  with nanosecond fields in range, the later one can wrap around to a negative value.
  9223372036854 seconds convert to 9223372036854000000 microseconds, 9223372036855
  seconds to -9223372036854551616.
\<close>

theorem conversion_monotone_counterexample:
  "0 \<le> sint (tv_nsec \<lparr>tv_sec = 9223372036854, tv_nsec = 0\<rparr>)
   \<and> sint (tv_nsec \<lparr>tv_sec = 9223372036854, tv_nsec = 0\<rparr>) < 1000000000
   \<and> 0 \<le> sint (tv_nsec \<lparr>tv_sec = 9223372036855, tv_nsec = 0\<rparr>)
   \<and> sint (tv_nsec \<lparr>tv_sec = 9223372036855, tv_nsec = 0\<rparr>) < 1000000000
   \<and> sint (tv_sec \<lparr>tv_sec = 9223372036854, tv_nsec = 0\<rparr>)
       < sint (tv_sec \<lparr>tv_sec = 9223372036855, tv_nsec = 0\<rparr>)
   \<and> sint (micros_of \<lparr>tv_sec = 9223372036854, tv_nsec = 0\<rparr>) = 9223372036854000000
   \<and> sint (micros_of \<lparr>tv_sec = 9223372036855, tv_nsec = 0\<rparr>) = - 9223372036854551616
   \<and> \<not> sint (micros_of \<lparr>tv_sec = 9223372036854, tv_nsec = 0\<rparr>)
         \<le> sint (micros_of \<lparr>tv_sec = 9223372036855, tv_nsec = 0\<rparr>)"
  by (simp add: micros_of_def sdiv64_def)

text \<open>
  C8, amended. The conversion is monotone on the readings it does not wrap around: for
  any two readings \<open>(s1, n1)\<close> and \<open>(s2, n2)\<close> with nanosecond fields in
  \<open>[0, 1_000_000_000)\<close>, with \<open>s * 1_000_000 + n / 1_000\<close> in the signed 64-bit range
  for both, and with \<open>(s1, n1) \<le> (s2, n2)\<close> in lexicographic order, the converted value
  of the first is \<open>\<le>\<close> the converted value of the second. Hence two successive reads of
  a clock that does not decrease print, in that range, a first value and then a second
  value that is not smaller.
\<close>

theorem conversion_monotone:
  assumes "0 \<le> sint (tv_nsec t1)" and "sint (tv_nsec t1) < 1000000000"
    and "0 \<le> sint (tv_nsec t2)" and "sint (tv_nsec t2) < 1000000000"
    and "fits_int64 (micros_spec (sint (tv_sec t1)) (sint (tv_nsec t1)))"
    and "fits_int64 (micros_spec (sint (tv_sec t2)) (sint (tv_nsec t2)))"
    and "sint (tv_sec t1) < sint (tv_sec t2)
         \<or> (sint (tv_sec t1) = sint (tv_sec t2) \<and> sint (tv_nsec t1) \<le> sint (tv_nsec t2))"
  shows "sint (micros_of t1) \<le> sint (micros_of t2)
    \<and> (this_command_name h1 = ''clock_gettime'' \<and> have_clock h1 \<and> clock h1 = Clock_Ok t1
        \<and> this_command_name h2 = ''clock_gettime'' \<and> have_clock h2 \<and> clock h2 = Clock_Ok t2
        \<longrightarrow>
        stdout (snd (timep_builtin h2 [] (snd (timep_builtin h1 [] st)))) =
          stdout st @ fmt_lld (sint (micros_of t1)) @ [CHR 0x0A]
                    @ fmt_lld (sint (micros_of t2)) @ [CHR 0x0A])"
proof -
  have "micros_spec (sint (tv_sec t1)) (sint (tv_nsec t1))
        \<le> micros_spec (sint (tv_sec t2)) (sint (tv_nsec t2))"
    using assms(1-4,7) by (rule micros_spec_mono)
  then have "sint (micros_of t1) \<le> sint (micros_of t2)"
    using assms(5,6) by (simp add: sint_micros_of_exact)
  then show ?thesis
    by (simp add: timep_builtin_print)
qed

theorem conversion_monotone_witness:
  "fits_int64 (micros_spec (sint (3 :: int64)) (sint (999999999 :: int64)))
   \<and> fits_int64 (micros_spec (sint (4 :: int64)) (sint (0 :: int64)))
   \<and> sint (3 :: int64) < sint (4 :: int64)
   \<and> sint (micros_of \<lparr>tv_sec = 3, tv_nsec = 999999999\<rparr>)
     \<le> sint (micros_of \<lparr>tv_sec = 4, tv_nsec = 0\<rparr>)
   \<and> stdout (snd (timep_builtin
        \<lparr>this_command_name = ''clock_gettime'', have_clock = True,
           clock = Clock_Ok \<lparr>tv_sec = 4, tv_nsec = 0\<rparr>\<rparr> []
        (snd (timep_builtin
          \<lparr>this_command_name = ''clock_gettime'', have_clock = True,
             clock = Clock_Ok \<lparr>tv_sec = 3, tv_nsec = 999999999\<rparr>\<rparr> [] shell0))))
     = ''3999999'' @ [CHR 0x0A] @ ''4000000'' @ [CHR 0x0A]"
proof -
  have m: "micros_spec 3 999999999 = 3999999" "micros_spec 4 0 = 4000000"
    by (simp_all add: micros_spec_truncates)
  have e: "sint (micros_of \<lparr>tv_sec = 3, tv_nsec = 999999999\<rparr>) = 3999999"
    "sint (micros_of \<lparr>tv_sec = 4, tv_nsec = 0\<rparr>) = 4000000"
    by (simp_all add: micros_of_def sdiv64_def signed_divide_int_def)
  have f: "fmt_lld 3999999 = ''3999999''" "fmt_lld 4000000 = ''4000000''"
    by (simp_all add: fmt_lld_def dec_digits.simps digit_char_def)
  show ?thesis
    using conversion_monotone [of "\<lparr>tv_sec = 3, tv_nsec = 999999999\<rparr>"
        "\<lparr>tv_sec = 4, tv_nsec = 0\<rparr>"
        "\<lparr>this_command_name = ''clock_gettime'', have_clock = True,
           clock = Clock_Ok \<lparr>tv_sec = 3, tv_nsec = 999999999\<rparr>\<rparr>"
        "\<lparr>this_command_name = ''clock_gettime'', have_clock = True,
           clock = Clock_Ok \<lparr>tv_sec = 4, tv_nsec = 0\<rparr>\<rparr>" shell0]
    by (simp add: m e f fits_int64_def)
qed

subsection \<open>C9: the formatting buffer\<close>

text \<open>
  C9. The decimal representation of any 64-bit signed integer, with its minus sign if
  there is one and with the terminator, takes at most 21 bytes and so fits in the buffer
  of 32 bytes: \<^verbatim>\<open>snprintf\<close> stores the whole representation, and the string bound to
  the variable is the full decimal representation of the computed value.
\<close>

theorem buffer_holds_every_value:
  "length (fmt_lld (sint (w :: int64))) + 1 \<le> 32
   \<and> snprintf_lld 32 (sint w) = fmt_lld (sint w)
   \<and> parse_int64 (snprintf_lld 32 (sint w)) = Some (sint w)
   \<and> (have_clock h \<and> clock h = Clock_Ok ts \<and> name \<noteq> [] \<longrightarrow>
        vars (snd (clock_gettime_main h [c, name] st)) name =
          Some (fmt_lld (sint (micros_of ts))))"
  using length_fmt_lld_int64 [of w]
  by (simp add: snprintf_lld_exact parse_int64_fmt_lld clock_gettime_main_assign
      bind_variable_def)

theorem buffer_holds_every_value_witness:
  "length (fmt_lld (sint (- 9223372036854775808 :: int64))) + 1 \<le> 32
   \<and> snprintf_lld 32 (sint (- 9223372036854775808 :: int64)) = ''-9223372036854775808''
   \<and> vars (snd (clock_gettime_main
        \<lparr>this_command_name = ''clock_gettime'', have_clock = True,
           clock = Clock_Ok \<lparr>tv_sec = 3, tv_nsec = 1999\<rparr>\<rparr> [''clock_gettime'', ''T''] shell0)) ''T''
     = Some ''3000001''"
proof -
  have e: "sint (micros_of \<lparr>tv_sec = 3, tv_nsec = 1999\<rparr>) = 3000001"
    by (simp add: micros_of_def sdiv64_def signed_divide_int_def)
  have f: "fmt_lld 3000001 = ''3000001''"
    by (simp add: fmt_lld_def dec_digits.simps digit_char_def)
  have g: "fmt_lld (- 9223372036854775808) = ''-9223372036854775808''"
    by (simp add: fmt_lld_def dec_digits.simps digit_char_def)
  show ?thesis
    using buffer_holds_every_value [of "- 9223372036854775808"
        "\<lparr>this_command_name = ''clock_gettime'', have_clock = True,
           clock = Clock_Ok \<lparr>tv_sec = 3, tv_nsec = 1999\<rparr>\<rparr>"
        "\<lparr>tv_sec = 3, tv_nsec = 1999\<rparr>" "''T''" "''clock_gettime''" shell0]
    by (simp add: e f g)
qed

subsection \<open>C10: a command name other than \<^verbatim>\<open>clock_gettime\<close>\<close>

text \<open>
  C10. When the first element of the argument vector, the name the command was invoked
  under, is not \<^verbatim>\<open>clock_gettime\<close>, the dispatcher reports
  \<^verbatim>\<open>timep: unknown command '<name>'\<close> and returns the failure status; the clock
  is not read, nothing is printed and no variable is bound.
\<close>

theorem unknown_command:
  assumes "make_builtin_argv h list ! 0 \<noteq> ''clock_gettime''"
  shows "fst (timep_builtin h list st) = EXECUTION_FAILURE
    \<and> stderr (snd (timep_builtin h list st)) =
        stderr st @ [''timep: unknown command '' @ [CHR 0x27] @
                     make_builtin_argv h list ! 0 @ [CHR 0x27]]
    \<and> clock_calls (snd (timep_builtin h list st)) = clock_calls st
    \<and> stdout (snd (timep_builtin h list st)) = stdout st
    \<and> vars (snd (timep_builtin h list st)) = vars st"
  using assms
  by (simp add: make_builtin_argv_def timep_builtin_unknown xfree_def builtin_error_def)

theorem unknown_command_witness:
  "make_builtin_argv \<lparr>this_command_name = ''timep'', have_clock = True,
        clock = Clock_Ok \<lparr>tv_sec = 3, tv_nsec = 1999\<rparr>\<rparr> [''T''] ! 0 \<noteq> ''clock_gettime''
   \<and> fst (timep_builtin
        \<lparr>this_command_name = ''timep'', have_clock = True,
           clock = Clock_Ok \<lparr>tv_sec = 3, tv_nsec = 1999\<rparr>\<rparr> [''T''] shell0)
       = EXECUTION_FAILURE
   \<and> stderr (snd (timep_builtin
        \<lparr>this_command_name = ''timep'', have_clock = True,
           clock = Clock_Ok \<lparr>tv_sec = 3, tv_nsec = 1999\<rparr>\<rparr> [''T''] shell0))
       = [''timep: unknown command '' @ [CHR 0x27] @ ''timep'' @ [CHR 0x27]]
   \<and> clock_calls (snd (timep_builtin
        \<lparr>this_command_name = ''timep'', have_clock = True,
           clock = Clock_Ok \<lparr>tv_sec = 3, tv_nsec = 1999\<rparr>\<rparr> [''T''] shell0)) = 0
   \<and> stdout (snd (timep_builtin
        \<lparr>this_command_name = ''timep'', have_clock = True,
           clock = Clock_Ok \<lparr>tv_sec = 3, tv_nsec = 1999\<rparr>\<rparr> [''T''] shell0)) = []
   \<and> vars (snd (timep_builtin
        \<lparr>this_command_name = ''timep'', have_clock = True,
           clock = Clock_Ok \<lparr>tv_sec = 3, tv_nsec = 1999\<rparr>\<rparr> [''T''] shell0)) = Map.empty"
  using unknown_command [of
      "\<lparr>this_command_name = ''timep'', have_clock = True,
         clock = Clock_Ok \<lparr>tv_sec = 3, tv_nsec = 1999\<rparr>\<rparr>" "[''T'']" shell0]
  by (simp add: make_builtin_argv_def)

end
